theory Spec2Isabelle
  imports Complex_Main
begin

section \<open>Badread: the command line and the validation of the simulate arguments\<close>

text \<open>
  The development embeds \<^verbatim>\<open>badread/badread.py\<close>: the declarations of the
  \<^verbatim>\<open>model\<close> subcommand, the dispatch in \<^verbatim>\<open>main\<close> and, line by line,
  \<^verbatim>\<open>check_simulate_args\<close>.
\<close>

subsection \<open>Python floats\<close>

text \<open>
  A Python float is an IEEE double: a finite number, an infinity or a NaN. The finite
  doubles are a subset of the reals, so every statement proved for all \<open>Fin x\<close> holds
  for all finite doubles. The comparisons are exact on the finite values, ordered on the
  infinities and false as soon as one side is a NaN, as in Python. An \<^verbatim>\<open>int\<close> that is
  compared with a float (\<^verbatim>\<open>args.chimeras > 50\<close>) compares by value, so the integer
  constants of the source appear as \<open>Fin 50\<close>, \<open>Fin 100\<close> and \<open>Fin 0\<close>.
\<close>

datatype pyfloat = Fin real | PInf | NInf | NaN

text \<open>Python's \<^verbatim>\<open>a < b\<close>.\<close>

fun fl_lt :: "pyfloat \<Rightarrow> pyfloat \<Rightarrow> bool" where
  "fl_lt (Fin x) (Fin y) = (x < y)"
| "fl_lt (Fin x) PInf = True"
| "fl_lt (Fin x) NInf = False"
| "fl_lt (Fin x) NaN = False"
| "fl_lt PInf b = False"
| "fl_lt NInf (Fin y) = True"
| "fl_lt NInf PInf = True"
| "fl_lt NInf NInf = False"
| "fl_lt NInf NaN = False"
| "fl_lt NaN b = False"

text \<open>Python's \<^verbatim>\<open>a <= b\<close>.\<close>

fun fl_le :: "pyfloat \<Rightarrow> pyfloat \<Rightarrow> bool" where
  "fl_le (Fin x) (Fin y) = (x \<le> y)"
| "fl_le (Fin x) PInf = True"
| "fl_le (Fin x) NInf = False"
| "fl_le (Fin x) NaN = False"
| "fl_le PInf (Fin y) = False"
| "fl_le PInf PInf = True"
| "fl_le PInf NInf = False"
| "fl_le PInf NaN = False"
| "fl_le NInf (Fin y) = True"
| "fl_le NInf PInf = True"
| "fl_le NInf NInf = True"
| "fl_le NInf NaN = False"
| "fl_le NaN b = False"

text \<open>Python's \<^verbatim>\<open>a > b\<close> and \<^verbatim>\<open>a >= b\<close>.\<close>

definition fl_gt :: "pyfloat \<Rightarrow> pyfloat \<Rightarrow> bool" where
  "fl_gt a b = fl_lt b a"

definition fl_ge :: "pyfloat \<Rightarrow> pyfloat \<Rightarrow> bool" where
  "fl_ge a b = fl_le b a"

definition is_nan :: "pyfloat \<Rightarrow> bool" where
  "is_nan a = (a = NaN)"

subsection \<open>Strings\<close>

text \<open>
  \<^verbatim>\<open>str.lower\<close> on the ASCII letters; every other character is kept. The two words the
  source compares with, \<^verbatim>\<open>perfect\<close> and \<^verbatim>\<open>random\<close>, contain no letter that a
  non-ASCII character lowers to.
\<close>

definition lower_char :: "char \<Rightarrow> char" where
  "lower_char c =
     (case map_of (zip ''ABCDEFGHIJKLMNOPQRSTUVWXYZ'' ''abcdefghijklmnopqrstuvwxyz'') c of
        None \<Rightarrow> c
      | Some l \<Rightarrow> l)"

definition lower :: "string \<Rightarrow> string" where
  "lower s = map lower_char s"

text \<open>
  \<^verbatim>\<open>s.split(sep)\<close> with a one-character separator: every occurrence splits, empty pieces
  are kept, and the result always has at least one piece.
\<close>

fun split :: "char \<Rightarrow> string \<Rightarrow> string list" where
  "split sep [] = [[]]"
| "split sep (c # cs) =
     (if c = sep then [] # split sep cs
      else (case split sep cs of
              [] \<Rightarrow> [[c]]
            | p # ps \<Rightarrow> (c # p) # ps))"

subsection \<open>What the function reads from outside\<close>

text \<open>
  \<^verbatim>\<open>settings.py\<close> holds the two minima the function compares with; they are numbers
  and are taken as parameters.
\<close>

record settings =
  MIN_MEAN_READ_LENGTH :: real
  MIN_MEAN_READ_IDENTITY :: real

text \<open>
  The interpreter and the file system: \<open>is_file p\<close> is
  \<^verbatim>\<open>pathlib.Path(p).is_file()\<close>, \<open>py_float s\<close> is \<^verbatim>\<open>float(s)\<close> with \<open>None\<close> for
  \<^verbatim>\<open>ValueError\<close>, and \<open>fl_add\<close> is the addition of two floats, which rounds. They
  are parameters: the theorems below hold whatever the files are, however \<^verbatim>\<open>float\<close>
  reads a string and however the sum is rounded.

  \<^verbatim>\<open>is_file\<close> answers \<^verbatim>\<open>False\<close> for a path that does not exist, but it hands on every
  other \<^verbatim>\<open>OSError\<close> of the \<^verbatim>\<open>stat\<close> call (a name that is too long, a directory that
  may not be searched): \<open>None\<close> is that exception.
\<close>

record platform =
  is_file :: "string \<Rightarrow> bool option"
  py_float :: "string \<Rightarrow> pyfloat option"
  fl_add :: "pyfloat \<Rightarrow> pyfloat \<Rightarrow> pyfloat"

subsection \<open>The namespace of the simulate subcommand\<close>

text \<open>
  The attributes that \<^verbatim>\<open>simulate_subparser\<close> declares, with the types that
  \<^verbatim>\<open>argparse\<close> gives them, the subcommand name, and the eight attributes that
  \<^verbatim>\<open>check_simulate_args\<close> adds: they do not exist before the call (\<open>None\<close>).
\<close>

record args =
  subparser_name :: string
  reference :: string
  quantity :: string
  length_arg :: string
  identity :: string
  error_model :: string
  start_adapter :: string
  end_adapter :: string
  start_adapter_seq :: string
  end_adapter_seq :: string
  junk_reads :: pyfloat
  random_reads :: pyfloat
  chimeras :: pyfloat
  glitches :: string
  small_plasmid_bias :: bool
  mean_frag_length :: "pyfloat option"
  frag_length_stdev :: "pyfloat option"
  mean_identity :: "pyfloat option"
  max_identity :: "pyfloat option"
  identity_shape :: "pyfloat option"
  glitch_rate :: "pyfloat option"
  glitch_size :: "pyfloat option"
  glitch_skip :: "pyfloat option"

subsection \<open>Errors\<close>

text \<open>
  The ways in which \<^verbatim>\<open>check_simulate_args\<close> ends without returning: the
  \<^verbatim>\<open>OSError\<close> that \<^verbatim>\<open>is_file\<close> may raise on the string given as error model, which
  nothing in the program catches, and one constructor for each \<^verbatim>\<open>sys.exit\<close>, in its
  order.
\<close>

datatype error =
    UncaughtOSError string
  | NotAFile string
  | ChimerasTooHigh
  | JunkReadsTooHigh
  | RandomReadsTooHigh
  | JunkRandomSumTooHigh
  | LengthParse
  | MeanLengthTooLow
  | LengthStdevNegative
  | IdentityParse
  | MeanIdentityTooHigh
  | MaxIdentityTooHigh
  | MeanIdentityTooLow
  | MaxIdentityTooLow
  | MeanAboveMax pyfloat pyfloat
  | ShapeNotPositive
  | GlitchesParse
  | GlitchesNegative

text \<open>
  The message handed to \<^verbatim>\<open>sys.exit\<close>: its text, with the values that
  \<^verbatim>\<open>format\<close> inserts kept as values. The uncaught exception hands no message to
  \<^verbatim>\<open>sys.exit\<close>: the interpreter prints its traceback.
\<close>

datatype piece = Text string | Number pyfloat

fun error_message :: "settings \<Rightarrow> error \<Rightarrow> piece list" where
  "error_message st (UncaughtOSError name) = []"
| "error_message st (NotAFile name) =
     [Text (''Error: '' @ name @ '' is not a file'' @ [CHR ''\<newline>''] @
            ''  --error_model must be '' @ [CHR 0x22] @ ''random'' @ [CHR 0x22] @ '', '' @
            [CHR 0x22] @ ''perfect'' @ [CHR 0x22] @ '' or a filename'')]"
| "error_message st ChimerasTooHigh = [Text ''Error: --chimeras cannot be greater than 50'']"
| "error_message st JunkReadsTooHigh =
     [Text ''Error: --junk_reads cannot be greater than 100'']"
| "error_message st RandomReadsTooHigh =
     [Text ''Error: --random_reads cannot be greater than 100'']"
| "error_message st JunkRandomSumTooHigh =
     [Text ''Error: --junk_reads and --random_reads cannot sum to more than 100'']"
| "error_message st LengthParse = [Text ''Error: could not parse --length values'']"
| "error_message st MeanLengthTooLow =
     [Text ''Error: mean read length must be at least '',
      Number (Fin (MIN_MEAN_READ_LENGTH st))]"
| "error_message st LengthStdevNegative =
     [Text ''Error: read length stdev cannot be negative'']"
| "error_message st IdentityParse = [Text ''Error: could not parse --identity values'']"
| "error_message st MeanIdentityTooHigh =
     [Text ''Error: mean read identity cannot be more than 100'']"
| "error_message st MaxIdentityTooHigh =
     [Text ''Error: max read identity cannot be more than 100'']"
| "error_message st MeanIdentityTooLow =
     [Text ''Error: mean read identity must be at least '',
      Number (Fin (MIN_MEAN_READ_IDENTITY st))]"
| "error_message st MaxIdentityTooLow =
     [Text ''Error: max read identity must be at least '',
      Number (Fin (MIN_MEAN_READ_IDENTITY st))]"
| "error_message st (MeanAboveMax mean mx) =
     [Text ''Error: mean identity ('', Number mean,
      Text '') cannot be larger than max identity ('', Number mx, Text '')'']"
| "error_message st ShapeNotPositive =
     [Text ''Error: read identity shape must be a positive value'']"
| "error_message st GlitchesParse = [Text ''Error: could not parse --glitches values'']"
| "error_message st GlitchesNegative =
     [Text ''Error: --glitches must contain non-negative values'']"

subsection \<open>check_simulate_args\<close>

text \<open>
  \<^verbatim>\<open>[float(x) for x in s.split(',')]\<close>: the list of the values, or \<open>None\<close> when one
  \<^verbatim>\<open>float(x)\<close> raises \<^verbatim>\<open>ValueError\<close>.
\<close>

fun floats :: "platform \<Rightarrow> string list \<Rightarrow> pyfloat list option" where
  "floats pf [] = Some []"
| "floats pf (x # xs) =
     (case py_float pf x of
        None \<Rightarrow> None
      | Some v \<Rightarrow> (case floats pf xs of None \<Rightarrow> None | Some vs \<Rightarrow> Some (v # vs)))"

text \<open>
  The three \<^verbatim>\<open>try\<close> blocks. Each converts every piece of its string and then reads the
  first two or three values of the list; \<open>None\<close> is the \<^verbatim>\<open>except\<close> branch, reached
  when a conversion raises \<^verbatim>\<open>ValueError\<close> or when the list is too short for an index
  that is read (\<^verbatim>\<open>IndexError\<close>).
\<close>

definition try_length :: "platform \<Rightarrow> args \<Rightarrow> (pyfloat \<times> pyfloat) option" where
  "try_length pf args =
     (case floats pf (split CHR '','' (length_arg args)) of
        Some (p0 # p1 # _) \<Rightarrow> Some (p0, p1)
      | _ \<Rightarrow> None)"

definition try_identity :: "platform \<Rightarrow> args \<Rightarrow> (pyfloat \<times> pyfloat \<times> pyfloat) option" where
  "try_identity pf args =
     (case floats pf (split CHR '','' (identity args)) of
        Some (p0 # p1 # p2 # _) \<Rightarrow> Some (p0, p1, p2)
      | _ \<Rightarrow> None)"

definition try_glitches :: "platform \<Rightarrow> args \<Rightarrow> (pyfloat \<times> pyfloat \<times> pyfloat) option" where
  "try_glitches pf args =
     (case floats pf (split CHR '','' (glitches args)) of
        Some (p0 # p1 # p2 # _) \<Rightarrow> Some (p0, p1, p2)
      | _ \<Rightarrow> None)"

text \<open>
  The check of the error model: \<open>None\<close> when it passes. \<^verbatim>\<open>is_file\<close> is called on
  the string as given, and only when the lowered string is neither of the two words.
\<close>

definition check_error_model :: "platform \<Rightarrow> args \<Rightarrow> error option" where
  "check_error_model pf args =
     (let model = lower (error_model args) in
      if model \<noteq> ''perfect'' \<and> model \<noteq> ''random'' then
        (case is_file pf (error_model args) of
           None \<Rightarrow> Some (UncaughtOSError (error_model args))
         | Some False \<Rightarrow> Some (NotAFile (error_model args))
         | Some True \<Rightarrow> None)
      else None)"

text \<open>
  The function, check by check. \<open>Inl\<close> is the end of the program, by \<^verbatim>\<open>sys.exit\<close>
  or by the uncaught exception, \<open>Inr\<close> the namespace as the function leaves it when it
  returns.
\<close>

definition check_simulate_args :: "platform \<Rightarrow> settings \<Rightarrow> args \<Rightarrow> error + args" where
  "check_simulate_args pf st args =
     (case check_error_model pf args of
        Some e \<Rightarrow> Inl e
      | None \<Rightarrow>
      if fl_gt (chimeras args) (Fin 50) then Inl ChimerasTooHigh
      else if fl_gt (junk_reads args) (Fin 100) then Inl JunkReadsTooHigh
      else if fl_gt (random_reads args) (Fin 100) then Inl RandomReadsTooHigh
      else if fl_gt (fl_add pf (junk_reads args) (random_reads args)) (Fin 100)
      then Inl JunkRandomSumTooHigh
      else
      (case try_length pf args of
         None \<Rightarrow> Inl LengthParse
       | Some (mean_len, stdev) \<Rightarrow>
           (let args = args\<lparr>mean_frag_length := Some mean_len,
                             frag_length_stdev := Some stdev\<rparr> in
            if fl_le mean_len (Fin (MIN_MEAN_READ_LENGTH st)) then Inl MeanLengthTooLow
            else if fl_lt stdev (Fin 0) then Inl LengthStdevNegative
            else
            (case try_identity pf args of
               None \<Rightarrow> Inl IdentityParse
             | Some (mean_id, max_id, shape) \<Rightarrow>
                 (let args = args\<lparr>mean_identity := Some mean_id,
                                   max_identity := Some max_id,
                                   identity_shape := Some shape\<rparr> in
                  if fl_gt mean_id (Fin 100) then Inl MeanIdentityTooHigh
                  else if fl_gt max_id (Fin 100) then Inl MaxIdentityTooHigh
                  else if fl_le mean_id (Fin (MIN_MEAN_READ_IDENTITY st))
                  then Inl MeanIdentityTooLow
                  else if fl_le max_id (Fin (MIN_MEAN_READ_IDENTITY st))
                  then Inl MaxIdentityTooLow
                  else if fl_gt mean_id max_id then Inl (MeanAboveMax mean_id max_id)
                  else if fl_le shape (Fin 0) then Inl ShapeNotPositive
                  else
                  (case try_glitches pf args of
                     None \<Rightarrow> Inl GlitchesParse
                   | Some (g_rate, g_size, g_skip) \<Rightarrow>
                       (let args = args\<lparr>glitch_rate := Some g_rate,
                                         glitch_size := Some g_size,
                                         glitch_skip := Some g_skip\<rparr> in
                        if fl_lt g_rate (Fin 0) \<or> fl_lt g_size (Fin 0) \<or> fl_lt g_skip (Fin 0)
                        then Inl GlitchesNegative
                        else Inr args)))))))"

subsection \<open>main\<close>



subsection \<open>The rules of the validation, one by one\<close>

text \<open>
  The place of each \<^verbatim>\<open>sys.exit\<close> in the text of the function; the exception comes
  from the same check as the first of them.
\<close>

fun rank :: "error \<Rightarrow> nat" where
  "rank (UncaughtOSError name) = 0"
| "rank (NotAFile name) = 0"
| "rank ChimerasTooHigh = 1"
| "rank JunkReadsTooHigh = 2"
| "rank RandomReadsTooHigh = 3"
| "rank JunkRandomSumTooHigh = 4"
| "rank LengthParse = 5"
| "rank MeanLengthTooLow = 6"
| "rank LengthStdevNegative = 7"
| "rank IdentityParse = 8"
| "rank MeanIdentityTooHigh = 9"
| "rank MaxIdentityTooHigh = 10"
| "rank MeanIdentityTooLow = 11"
| "rank MaxIdentityTooLow = 12"
| "rank (MeanAboveMax mean mx) = 13"
| "rank ShapeNotPositive = 14"
| "rank GlitchesParse = 15"
| "rank GlitchesNegative = 16"

text \<open>
  \<open>violated pf st args e\<close>: the rule whose failure is reported by \<open>e\<close> is broken by
  \<open>args\<close>, whatever the other rules say (for the exception: the file test raises). A rule on a value that cannot be read from its
  string is not broken; the rule that the string must parse is.
\<close>

fun violated :: "platform \<Rightarrow> settings \<Rightarrow> args \<Rightarrow> error \<Rightarrow> bool" where
  "violated pf st args (UncaughtOSError name) =
     (name = error_model args \<and> lower (error_model args) \<noteq> ''perfect'' \<and>
      lower (error_model args) \<noteq> ''random'' \<and> is_file pf (error_model args) = None)"
| "violated pf st args (NotAFile name) =
     (name = error_model args \<and> lower (error_model args) \<noteq> ''perfect'' \<and>
      lower (error_model args) \<noteq> ''random'' \<and>
      is_file pf (error_model args) = Some False)"
| "violated pf st args ChimerasTooHigh = fl_gt (chimeras args) (Fin 50)"
| "violated pf st args JunkReadsTooHigh = fl_gt (junk_reads args) (Fin 100)"
| "violated pf st args RandomReadsTooHigh = fl_gt (random_reads args) (Fin 100)"
| "violated pf st args JunkRandomSumTooHigh =
     fl_gt (fl_add pf (junk_reads args) (random_reads args)) (Fin 100)"
| "violated pf st args LengthParse = (try_length pf args = None)"
| "violated pf st args MeanLengthTooLow =
     (case try_length pf args of None \<Rightarrow> False
      | Some (mean_len, stdev) \<Rightarrow> fl_le mean_len (Fin (MIN_MEAN_READ_LENGTH st)))"
| "violated pf st args LengthStdevNegative =
     (case try_length pf args of None \<Rightarrow> False
      | Some (mean_len, stdev) \<Rightarrow> fl_lt stdev (Fin 0))"
| "violated pf st args IdentityParse = (try_identity pf args = None)"
| "violated pf st args MeanIdentityTooHigh =
     (case try_identity pf args of None \<Rightarrow> False
      | Some (mean_id, max_id, shape) \<Rightarrow> fl_gt mean_id (Fin 100))"
| "violated pf st args MaxIdentityTooHigh =
     (case try_identity pf args of None \<Rightarrow> False
      | Some (mean_id, max_id, shape) \<Rightarrow> fl_gt max_id (Fin 100))"
| "violated pf st args MeanIdentityTooLow =
     (case try_identity pf args of None \<Rightarrow> False
      | Some (mean_id, max_id, shape) \<Rightarrow> fl_le mean_id (Fin (MIN_MEAN_READ_IDENTITY st)))"
| "violated pf st args MaxIdentityTooLow =
     (case try_identity pf args of None \<Rightarrow> False
      | Some (mean_id, max_id, shape) \<Rightarrow> fl_le max_id (Fin (MIN_MEAN_READ_IDENTITY st)))"
| "violated pf st args (MeanAboveMax mean mx) =
     (case try_identity pf args of None \<Rightarrow> False
      | Some (mean_id, max_id, shape) \<Rightarrow>
          mean = mean_id \<and> mx = max_id \<and> fl_gt mean_id max_id)"
| "violated pf st args ShapeNotPositive =
     (case try_identity pf args of None \<Rightarrow> False
      | Some (mean_id, max_id, shape) \<Rightarrow> fl_le shape (Fin 0))"
| "violated pf st args GlitchesParse = (try_glitches pf args = None)"
| "violated pf st args GlitchesNegative =
     (case try_glitches pf args of None \<Rightarrow> False
      | Some (g_rate, g_size, g_skip) \<Rightarrow>
          fl_lt g_rate (Fin 0) \<or> fl_lt g_size (Fin 0) \<or> fl_lt g_skip (Fin 0))"

text \<open>
  The namespace that the function returns when it returns: the eight attributes set from
  the values read in the three \<^verbatim>\<open>try\<close> blocks.
\<close>

definition populate :: "platform \<Rightarrow> args \<Rightarrow> args" where
  "populate pf a =
     (case (try_length pf a, try_identity pf a, try_glitches pf a) of
        (Some (l0, l1), Some (i0, i1, i2), Some (g0, g1, g2)) \<Rightarrow>
          a\<lparr>mean_frag_length := Some l0, frag_length_stdev := Some l1,
            mean_identity := Some i0, max_identity := Some i1, identity_shape := Some i2,
            glitch_rate := Some g0, glitch_size := Some g1, glitch_skip := Some g2\<rparr>
      | _ \<Rightarrow> a)"

subsection \<open>The declarations of the model subcommand\<close>

text \<open>
  An \<^verbatim>\<open>add_argument\<close> call: the option string, the \<^verbatim>\<open>type\<close>, \<^verbatim>\<open>required\<close> and
  the \<^verbatim>\<open>default\<close> (\<^verbatim>\<open>None\<close> when the call gives none). The \<^verbatim>\<open>help\<close> action has
  \<^verbatim>\<open>default=argparse.SUPPRESS\<close> and leaves no attribute, so it is not listed.
\<close>

datatype pyval = VNone | VInt int | VFloat pyfloat | VStr string | VBool bool

datatype argtype = TStr | TInt | TFloat

record argument =
  option_string :: string
  type_arg :: argtype
  required :: bool
  default_arg :: pyval

definition model_subparser :: "argument list" where
  "model_subparser =
     [\<lparr>option_string = ''--reference'', type_arg = TStr, required = True, default_arg = VNone\<rparr>,
      \<lparr>option_string = ''--reads'', type_arg = TStr, required = True, default_arg = VNone\<rparr>,
      \<lparr>option_string = ''--alignment'', type_arg = TStr, required = True, default_arg = VNone\<rparr>,
      \<lparr>option_string = ''--k_size'', type_arg = TInt, required = False, default_arg = VInt 7\<rparr>,
      \<lparr>option_string = ''--max_alignments'', type_arg = TInt, required = False,
       default_arg = VNone\<rparr>,
      \<lparr>option_string = ''--max_alt'', type_arg = TInt, required = False, default_arg = VInt 25\<rparr>]"

text \<open>
  The attribute an option is stored under: \<^verbatim>\<open>argparse\<close> strips the leading dashes of the
  option string.
\<close>

definition dest :: "argument \<Rightarrow> string" where
  "dest d = dropWhile (\<lambda>c. c = CHR ''-'') (option_string d)"

text \<open>
  \<^verbatim>\<open>parse_args\<close> on a command line whose options have been recognised and converted:
  \<open>given\<close> lists, in the order of the command line, the attribute and the value of each
  option the user supplied. The namespace holds the default of every declared argument,
  overwritten by what is given (the last occurrence wins). A required option that is
  missing, or an option that is not declared, is an error (\<open>None\<close>).
\<close>

definition namespace_defaults :: "argument list \<Rightarrow> (string \<rightharpoonup> pyval)" where
  "namespace_defaults decls = map_of (map (\<lambda>d. (dest d, default_arg d)) decls)"

definition parse_args :: "argument list \<Rightarrow> (string \<times> pyval) list \<Rightarrow> (string \<rightharpoonup> pyval) option" where
  "parse_args decls given =
     (if list_ex (\<lambda>d. required d \<and> dest d \<notin> set (map fst given)) decls then None
      else if list_ex (\<lambda>k. k \<notin> set (map dest decls)) (map fst given) then None
      else Some (namespace_defaults decls ++ map_of (rev given)))"

subsection \<open>A concrete platform, for evaluation\<close>

text \<open>
  A reading of \<^verbatim>\<open>float\<close> for the plain decimal forms: an optional sign, then
  \<^verbatim>\<open>nan\<close>, \<^verbatim>\<open>inf\<close> or \<^verbatim>\<open>infinity\<close> in any case, or digits with an optional
  fraction. Python accepts more (exponents, underscores, blanks around the number) and
  rounds to the nearest double; the strings evaluated below are plain and denote doubles.
\<close>

definition digit :: "char \<Rightarrow> nat option" where
  "digit c = (let n = (of_char c :: nat) in if 48 \<le> n \<and> n \<le> 57 then Some (n - 48) else None)"

fun digits :: "string \<Rightarrow> nat \<Rightarrow> nat option" where
  "digits [] acc = Some acc"
| "digits (c # cs) acc =
     (case digit c of None \<Rightarrow> None | Some d \<Rightarrow> digits cs (10 * acc + d))"

definition decimal :: "string \<Rightarrow> real option" where
  "decimal s =
     (case split CHR ''.'' s of
        [i] \<Rightarrow> if i = [] then None else map_option real (digits i 0)
      | [i, f] \<Rightarrow>
          if i = [] \<and> f = [] then None
          else (case (digits i 0, digits f 0) of
                  (Some n, Some m) \<Rightarrow> Some (real n + real m / 10 ^ length f)
                | _ \<Rightarrow> None)
      | _ \<Rightarrow> None)"

definition unsigned_float :: "string \<Rightarrow> pyfloat option" where
  "unsigned_float s =
     (if lower s = ''nan'' then Some NaN
      else if lower s = ''inf'' \<or> lower s = ''infinity'' then Some PInf
      else map_option Fin (decimal s))"

fun fl_neg :: "pyfloat \<Rightarrow> pyfloat" where
  "fl_neg (Fin x) = Fin (- x)"
| "fl_neg PInf = NInf"
| "fl_neg NInf = PInf"
| "fl_neg NaN = NaN"

definition float_of_string :: "string \<Rightarrow> pyfloat option" where
  "float_of_string s =
     (case s of
        [] \<Rightarrow> None
      | c # cs \<Rightarrow>
          if c = CHR ''-'' then map_option fl_neg (unsigned_float cs)
          else if c = CHR ''+'' then unsigned_float cs
          else unsigned_float s)"

text \<open>
  The sum of two floats without the rounding: exact whenever the sum of the two doubles
  is a double, as for the small integers evaluated below.
\<close>

fun exact_add :: "pyfloat \<Rightarrow> pyfloat \<Rightarrow> pyfloat" where
  "exact_add (Fin x) (Fin y) = Fin (x + y)"
| "exact_add (Fin x) b = b"
| "exact_add NaN b = NaN"
| "exact_add PInf (Fin y) = PInf"
| "exact_add PInf PInf = PInf"
| "exact_add PInf NInf = NaN"
| "exact_add PInf NaN = NaN"
| "exact_add NInf (Fin y) = NInf"
| "exact_add NInf PInf = NaN"
| "exact_add NInf NInf = NInf"
| "exact_add NInf NaN = NaN"

text \<open>
  A platform whose files are those of the list \<open>files\<close>. As on Linux, the file test
  raises for a path of 4096 characters or more and for a path with a component of more
  than 255.
\<close>

definition host :: "string list \<Rightarrow> platform" where
  "host files =
     \<lparr>is_file = (\<lambda>p. if 4096 \<le> length p \<or> list_ex (\<lambda>c. 255 < length c) (split CHR ''/'' p)
                     then None else Some (p \<in> set files)),
      py_float = float_of_string, fl_add = exact_add\<rparr>"

text \<open>
  Two minima to evaluate with. The defaults of the command line, a mean length of 10000
  and a mean identity of 85, lie above them.
\<close>

definition example_settings :: settings where
  "example_settings = \<lparr>MIN_MEAN_READ_LENGTH = 100, MIN_MEAN_READ_IDENTITY = 50\<rparr>"

text \<open>
  The namespace of \<^verbatim>\<open>badread simulate --reference ref --quantity qty\<close>: every other
  attribute has the default that \<^verbatim>\<open>simulate_subparser\<close> declares.
\<close>

definition simulate_defaults :: "string \<Rightarrow> string \<Rightarrow> args" where
  "simulate_defaults ref qty =
     \<lparr>subparser_name = ''simulate'',
      reference = ref,
      quantity = qty,
      length_arg = ''10000,9000'',
      identity = ''85,95,4'',
      error_model = ''random'',
      start_adapter = ''0.9,0.6'',
      end_adapter = ''0.5,0.2'',
      start_adapter_seq = ''AATGTACTTCGTTCAGTTACGTATTGCT'',
      end_adapter_seq = ''GCAATACGTAACTGAACGAAGT'',
      junk_reads = Fin 1,
      random_reads = Fin 1,
      chimeras = Fin 1,
      glitches = ''5000,50,50'',
      small_plasmid_bias = False,
      mean_frag_length = None,
      frag_length_stdev = None,
      mean_identity = None,
      max_identity = None,
      identity_shape = None,
      glitch_rate = None,
      glitch_size = None,
      glitch_skip = None\<rparr>"

section \<open>Properties\<close>

subsection \<open>The function reports the first rule that is broken\<close>

lemma try_frame [simp]:
  "try_identity pf (args\<lparr>mean_frag_length := a, frag_length_stdev := b\<rparr>) = try_identity pf args"
  "try_glitches pf (args\<lparr>mean_frag_length := a, frag_length_stdev := b,
       mean_identity := c, max_identity := d, identity_shape := e\<rparr>) = try_glitches pf args"
  by (simp_all add: try_identity_def try_glitches_def)

lemma check_error_model_chain:
  "check_error_model pf a =
     (if violated pf st a (UncaughtOSError (error_model a))
      then Some (UncaughtOSError (error_model a))
      else if violated pf st a (NotAFile (error_model a)) then Some (NotAFile (error_model a))
      else None)"
  by (auto simp: check_error_model_def Let_def split: option.splits bool.splits)

lemma check_chain:
  "check_simulate_args pf st a =
     (if violated pf st a (UncaughtOSError (error_model a))
      then Inl (UncaughtOSError (error_model a))
      else if violated pf st a (NotAFile (error_model a)) then Inl (NotAFile (error_model a))
      else if violated pf st a ChimerasTooHigh then Inl ChimerasTooHigh
      else if violated pf st a JunkReadsTooHigh then Inl JunkReadsTooHigh
      else if violated pf st a RandomReadsTooHigh then Inl RandomReadsTooHigh
      else if violated pf st a JunkRandomSumTooHigh then Inl JunkRandomSumTooHigh
      else if violated pf st a LengthParse then Inl LengthParse
      else if violated pf st a MeanLengthTooLow then Inl MeanLengthTooLow
      else if violated pf st a LengthStdevNegative then Inl LengthStdevNegative
      else if violated pf st a IdentityParse then Inl IdentityParse
      else if violated pf st a MeanIdentityTooHigh then Inl MeanIdentityTooHigh
      else if violated pf st a MaxIdentityTooHigh then Inl MaxIdentityTooHigh
      else if violated pf st a MeanIdentityTooLow then Inl MeanIdentityTooLow
      else if violated pf st a MaxIdentityTooLow then Inl MaxIdentityTooLow
      else if (\<exists>m x. violated pf st a (MeanAboveMax m x))
      then Inl (case try_identity pf a of Some (m, x, s) \<Rightarrow> MeanAboveMax m x | None \<Rightarrow> IdentityParse)
      else if violated pf st a ShapeNotPositive then Inl ShapeNotPositive
      else if violated pf st a GlitchesParse then Inl GlitchesParse
      else if violated pf st a GlitchesNegative then Inl GlitchesNegative
      else Inr (populate pf a))"
proof (cases "try_length pf a")
  case None
  then show ?thesis
    by (simp add: check_simulate_args_def Let_def check_error_model_chain [of pf a st]
        del: violated.simps(1,2))
next
  case L: (Some l)
  obtain l0 l1 where l: "l = (l0, l1)" by (cases l)
  show ?thesis
  proof (cases "try_identity pf a")
    case None
    with L l show ?thesis
    by (simp add: check_simulate_args_def Let_def check_error_model_chain [of pf a st]
        del: violated.simps(1,2))
  next
    case I: (Some i)
    obtain i0 i1 i2 where i: "i = (i0, i1, i2)" by (cases i)
    show ?thesis
    proof (cases "try_glitches pf a")
      case None
      with L l I i show ?thesis
    by (simp add: check_simulate_args_def Let_def check_error_model_chain [of pf a st]
        del: violated.simps(1,2))
    next
      case G: (Some g)
      obtain g0 g1 g2 where g: "g = (g0, g1, g2)" by (cases g)
      with L l I i G show ?thesis
        by (simp add: check_simulate_args_def Let_def populate_def
            check_error_model_chain [of pf a st] del: violated.simps(1,2))
    qed
  qed
qed


lemma check_Inl_violated:
  "check_simulate_args pf st a = Inl e \<Longrightarrow> violated pf st a e"
  by (auto simp: check_chain simp del: violated.simps(1,2) split: if_splits option.splits)

lemma check_Inl_least:
  assumes r: "check_simulate_args pf st a = Inl e" and v: "violated pf st a e'"
  shows "rank e \<le> rank e'"
proof (cases e')
  case (UncaughtOSError n)
  then have "violated pf st a (UncaughtOSError (error_model a))" using v by simp
  then show ?thesis
    using r by (auto simp: check_chain simp del: violated.simps(1,2))
next
  case (NotAFile n)
  then have "violated pf st a (NotAFile (error_model a))" using v by simp
  then show ?thesis
    using r by (auto simp: check_chain simp del: violated.simps(1,2) split: if_splits)
qed (use r v in \<open>auto simp: check_chain simp del: violated.simps(1,2)
      split: if_splits option.splits\<close>)

lemma check_Inr_none:
  assumes r: "check_simulate_args pf st a = Inr a'"
  shows "\<not> violated pf st a e"
proof
  assume v: "violated pf st a e"
  show False
  proof (cases e)
    case (UncaughtOSError n)
    then have "violated pf st a (UncaughtOSError (error_model a))" using v by simp
    then show ?thesis
      using r by (auto simp: check_chain simp del: violated.simps(1,2))
  next
    case (NotAFile n)
    then have "violated pf st a (NotAFile (error_model a))" using v by simp
    then show ?thesis
      using r by (auto simp: check_chain simp del: violated.simps(1,2) split: if_splits)
  qed (use r v in \<open>auto simp: check_chain simp del: violated.simps(1,2)
        split: if_splits option.splits\<close>)
qed

lemma check_Inr_populate:
  "check_simulate_args pf st a = Inr a' \<Longrightarrow> a' = populate pf a"
  by (auto simp: check_chain simp del: violated.simps(1,2) split: if_splits)

lemma violated_same_rank:
  "violated pf st a e \<Longrightarrow> violated pf st a e' \<Longrightarrow> rank e = rank e' \<Longrightarrow> e = e'"
  by (cases e; cases e') (auto split: option.splits)

lemma check_Inl_iff:
  "check_simulate_args pf st a = Inl e \<longleftrightarrow>
     violated pf st a e \<and> (\<forall>e'. rank e' < rank e \<longrightarrow> \<not> violated pf st a e')"
proof
  assume "check_simulate_args pf st a = Inl e"
  then show "violated pf st a e \<and> (\<forall>e'. rank e' < rank e \<longrightarrow> \<not> violated pf st a e')"
    using check_Inl_violated check_Inl_least by (metis not_less)
next
  assume h: "violated pf st a e \<and> (\<forall>e'. rank e' < rank e \<longrightarrow> \<not> violated pf st a e')"
  show "check_simulate_args pf st a = Inl e"
  proof (cases "check_simulate_args pf st a")
    case (Inl e0)
    have "violated pf st a e0" using Inl by (rule check_Inl_violated)
    moreover have "rank e0 \<le> rank e" using Inl h by (blast intro: check_Inl_least)
    ultimately have "e0 = e" using h violated_same_rank
      by (metis le_neq_implies_less)
    with Inl show ?thesis by simp
  next
    case (Inr a')
    with h show ?thesis using check_Inr_none by blast
  qed
qed

lemma check_Inr_iff:
  "check_simulate_args pf st a = Inr a' \<longleftrightarrow>
     (\<forall>e. \<not> violated pf st a e) \<and> a' = populate pf a"
proof
  assume "check_simulate_args pf st a = Inr a'"
  then show "(\<forall>e. \<not> violated pf st a e) \<and> a' = populate pf a"
    using check_Inr_none check_Inr_populate by blast
next
  assume h: "(\<forall>e. \<not> violated pf st a e) \<and> a' = populate pf a"
  show "check_simulate_args pf st a = Inr a'"
  proof (cases "check_simulate_args pf st a")
    case (Inl e)
    then show ?thesis using h check_Inl_violated by blast
  next
    case (Inr b)
    then show ?thesis using h check_Inr_populate by blast
  qed
qed


subsection \<open>Comparisons\<close>

lemma fl_le_iff_not_lt:
  "a \<noteq> NaN \<Longrightarrow> b \<noteq> NaN \<Longrightarrow> fl_le a b = (\<not> fl_lt b a)"
  by (cases a; cases b) auto

lemma fl_lt_iff_not_le:
  "a \<noteq> NaN \<Longrightarrow> b \<noteq> NaN \<Longrightarrow> fl_lt a b = (\<not> fl_le b a)"
  by (cases a; cases b) auto

lemmas eval_defs = check_error_model_def float_of_string_def unsigned_float_def decimal_def lower_def lower_char_def
  digit_def try_length_def try_identity_def try_glitches_def host_def example_settings_def
  simulate_defaults_def fl_gt_def fl_ge_def is_nan_def

lemma defaults_accepted:
  "check_simulate_args (host files) example_settings (simulate_defaults ref qty) =
     Inr ((simulate_defaults ref qty)
          \<lparr>mean_frag_length := Some (Fin 10000), frag_length_stdev := Some (Fin 9000),
            mean_identity := Some (Fin 85), max_identity := Some (Fin 95),
            identity_shape := Some (Fin 4), glitch_rate := Some (Fin 5000),
            glitch_size := Some (Fin 50), glitch_skip := Some (Fin 50)\<rparr>)"
  by (simp add: check_simulate_args_def Let_def eval_defs)

subsection \<open>Bounds on the percentages and on the length deviation\<close>

text \<open>
  Claim C1, as amended. When \<^verbatim>\<open>check_simulate_args\<close> returns, none of
  \<^verbatim>\<open>chimeras > 50\<close>, \<^verbatim>\<open>junk_reads > 100\<close>, \<^verbatim>\<open>random_reads > 100\<close>,
  \<^verbatim>\<open>junk_reads + random_reads > 100\<close> and \<^verbatim>\<open>frag_length_stdev < 0\<close> holds, so each
  of these values that is not a NaN is within its bound (\<^verbatim>\<open>chimeras <= 50\<close>,
  \<^verbatim>\<open>junk_reads <= 100\<close>, \<^verbatim>\<open>random_reads <= 100\<close>, sum \<^verbatim>\<open><= 100\<close>, deviation
  \<^verbatim>\<open>>= 0\<close>); and an argument set for which one of those five comparisons holds makes
  the function exit with an error.
\<close>

theorem check_simulate_args_bounds:
  "(check_simulate_args pf st a = Inr a' \<longrightarrow>
      \<not> fl_gt (chimeras a') (Fin 50) \<and>
      \<not> fl_gt (junk_reads a') (Fin 100) \<and>
      \<not> fl_gt (random_reads a') (Fin 100) \<and>
      \<not> fl_gt (fl_add pf (junk_reads a') (random_reads a')) (Fin 100) \<and>
      (\<exists>sd. frag_length_stdev a' = Some sd \<and> \<not> fl_lt sd (Fin 0) \<and>
            (\<not> is_nan sd \<longrightarrow> fl_ge sd (Fin 0))) \<and>
      (\<not> is_nan (chimeras a') \<longrightarrow> fl_le (chimeras a') (Fin 50)) \<and>
      (\<not> is_nan (junk_reads a') \<longrightarrow> fl_le (junk_reads a') (Fin 100)) \<and>
      (\<not> is_nan (random_reads a') \<longrightarrow> fl_le (random_reads a') (Fin 100)) \<and>
      (\<not> is_nan (fl_add pf (junk_reads a') (random_reads a')) \<longrightarrow>
         fl_le (fl_add pf (junk_reads a') (random_reads a')) (Fin 100))) \<and>
   (fl_gt (chimeras a) (Fin 50) \<or> fl_gt (junk_reads a) (Fin 100) \<or>
    fl_gt (random_reads a) (Fin 100) \<or>
    fl_gt (fl_add pf (junk_reads a) (random_reads a)) (Fin 100) \<or>
    (\<exists>mean_len sd. try_length pf a = Some (mean_len, sd) \<and> fl_lt sd (Fin 0)) \<longrightarrow>
    (\<exists>e. check_simulate_args pf st a = Inl e))"
proof (intro conjI impI)
  assume r: "check_simulate_args pf st a = Inr a'"
  have nv: "\<And>e. \<not> violated pf st a e" using r by (rule check_Inr_none)
  have p: "a' = populate pf a" using r by (rule check_Inr_populate)
  obtain l0 l1 where l: "try_length pf a = Some (l0, l1)"
    using nv [of LengthParse] by auto
  obtain i0 i1 i2 where i: "try_identity pf a = Some (i0, i1, i2)"
    using nv [of IdentityParse] by auto
  obtain g0 g1 g2 where g: "try_glitches pf a = Some (g0, g1, g2)"
    using nv [of GlitchesParse] by auto
  have c: "chimeras a' = chimeras a" and j: "junk_reads a' = junk_reads a"
    and rr: "random_reads a' = random_reads a" and sd: "frag_length_stdev a' = Some l1"
    using p l i g by (simp_all add: populate_def)
  show c50: "\<not> fl_gt (chimeras a') (Fin 50)" using nv [of ChimerasTooHigh] c by simp
  show j100: "\<not> fl_gt (junk_reads a') (Fin 100)" using nv [of JunkReadsTooHigh] j by simp
  show r100: "\<not> fl_gt (random_reads a') (Fin 100)" using nv [of RandomReadsTooHigh] rr by simp
  show s100: "\<not> fl_gt (fl_add pf (junk_reads a') (random_reads a')) (Fin 100)"
    using nv [of JunkRandomSumTooHigh] j rr by simp
  have sd0: "\<not> fl_lt l1 (Fin 0)" using nv [of LengthStdevNegative] l by simp
  then show "\<exists>sd. frag_length_stdev a' = Some sd \<and> \<not> fl_lt sd (Fin 0) \<and>
            (\<not> is_nan sd \<longrightarrow> fl_ge sd (Fin 0))"
    using sd by (simp add: is_nan_def fl_ge_def fl_le_iff_not_lt)
  show "fl_le (chimeras a') (Fin 50)" if "\<not> is_nan (chimeras a')"
    using that c50 by (simp add: is_nan_def fl_gt_def fl_le_iff_not_lt)
  show "fl_le (junk_reads a') (Fin 100)" if "\<not> is_nan (junk_reads a')"
    using that j100 by (simp add: is_nan_def fl_gt_def fl_le_iff_not_lt)
  show "fl_le (random_reads a') (Fin 100)" if "\<not> is_nan (random_reads a')"
    using that r100 by (simp add: is_nan_def fl_gt_def fl_le_iff_not_lt)
  show "fl_le (fl_add pf (junk_reads a') (random_reads a')) (Fin 100)"
    if "\<not> is_nan (fl_add pf (junk_reads a') (random_reads a'))"
    using that s100 by (simp add: is_nan_def fl_gt_def fl_le_iff_not_lt)
next
  assume h: "fl_gt (chimeras a) (Fin 50) \<or> fl_gt (junk_reads a) (Fin 100) \<or>
    fl_gt (random_reads a) (Fin 100) \<or>
    fl_gt (fl_add pf (junk_reads a) (random_reads a)) (Fin 100) \<or>
    (\<exists>mean_len sd. try_length pf a = Some (mean_len, sd) \<and> fl_lt sd (Fin 0))"
  then have "\<exists>e. violated pf st a e"
  proof (elim disjE exE conjE)
    assume "fl_gt (chimeras a) (Fin 50)"
    then have "violated pf st a ChimerasTooHigh" by simp
    then show ?thesis ..
  next
    assume "fl_gt (junk_reads a) (Fin 100)"
    then have "violated pf st a JunkReadsTooHigh" by simp
    then show ?thesis ..
  next
    assume "fl_gt (random_reads a) (Fin 100)"
    then have "violated pf st a RandomReadsTooHigh" by simp
    then show ?thesis ..
  next
    assume "fl_gt (fl_add pf (junk_reads a) (random_reads a)) (Fin 100)"
    then have "violated pf st a JunkRandomSumTooHigh" by simp
    then show ?thesis ..
  next
    fix mean_len sd
    assume "try_length pf a = Some (mean_len, sd)" "fl_lt sd (Fin 0)"
    then have "violated pf st a LengthStdevNegative" by simp
    then show ?thesis ..
  qed
  then show "\<exists>e. check_simulate_args pf st a = Inl e"
    using check_Inr_none [of pf st a] by (cases "check_simulate_args pf st a") auto
qed

theorem check_simulate_args_bounds_witness:
  "check_simulate_args (host []) example_settings (simulate_defaults ''ref.fasta'' ''50x'') =
     Inr ((simulate_defaults ''ref.fasta'' ''50x'')
          \<lparr>mean_frag_length := Some (Fin 10000), frag_length_stdev := Some (Fin 9000),
            mean_identity := Some (Fin 85), max_identity := Some (Fin 95),
            identity_shape := Some (Fin 4), glitch_rate := Some (Fin 5000),
            glitch_size := Some (Fin 50), glitch_skip := Some (Fin 50)\<rparr>) \<and>
   fl_le (Fin 1) (Fin 50) \<and> fl_le (Fin 1) (Fin 100) \<and>
   fl_le (exact_add (Fin 1) (Fin 1)) (Fin 100) \<and> fl_ge (Fin 9000) (Fin 0) \<and>
   fl_gt (chimeras ((simulate_defaults ''ref.fasta'' ''50x'')\<lparr>chimeras := Fin 60\<rparr>)) (Fin 50) \<and>
   (\<exists>e. check_simulate_args (host []) example_settings
          ((simulate_defaults ''ref.fasta'' ''50x'')\<lparr>chimeras := Fin 60\<rparr>) = Inl e)"
  using check_simulate_args_bounds [of "host []" example_settings
      "simulate_defaults ''ref.fasta'' ''50x''"
      "(simulate_defaults ''ref.fasta'' ''50x'')
          \<lparr>mean_frag_length := Some (Fin 10000), frag_length_stdev := Some (Fin 9000),
            mean_identity := Some (Fin 85), max_identity := Some (Fin 95),
            identity_shape := Some (Fin 4), glitch_rate := Some (Fin 5000),
            glitch_size := Some (Fin 50), glitch_skip := Some (Fin 50)\<rparr>"]
    check_simulate_args_bounds [of "host []" example_settings
      "(simulate_defaults ''ref.fasta'' ''50x'')\<lparr>chimeras := Fin 60\<rparr>"]
    defaults_accepted [of "[]" "''ref.fasta''" "''50x''"]
  by (simp add: fl_gt_def fl_ge_def is_nan_def)

text \<open>
  Claim C1 as stated fails for a NaN, which \<^verbatim>\<open>float\<close> reads from \<^verbatim>\<open>nan\<close> and which
  no comparison rejects: with \<^verbatim>\<open>--chimeras nan\<close> the function returns and
  \<^verbatim>\<open>chimeras <= 50\<close> is false.
\<close>

theorem nan_chimeras_accepted:
  "check_simulate_args (host []) example_settings
     ((simulate_defaults ''ref.fasta'' ''50x'')\<lparr>chimeras := NaN\<rparr>) =
     Inr ((simulate_defaults ''ref.fasta'' ''50x'')
          \<lparr>chimeras := NaN,
            mean_frag_length := Some (Fin 10000), frag_length_stdev := Some (Fin 9000),
            mean_identity := Some (Fin 85), max_identity := Some (Fin 95),
            identity_shape := Some (Fin 4), glitch_rate := Some (Fin 5000),
            glitch_size := Some (Fin 50), glitch_skip := Some (Fin 50)\<rparr>) \<and>
   float_of_string ''nan'' = Some NaN \<and>
   \<not> fl_le NaN (Fin 50)"
  by (simp add: check_simulate_args_def Let_def eval_defs)

subsection \<open>The error model\<close>








subsection \<open>The identity parameters\<close>

text \<open>
  Claim C3, as amended. When \<^verbatim>\<open>check_simulate_args\<close> returns, the three identity
  values are set and none of the comparisons that the function rejects holds: neither
  mean nor max is above 100 or at most \<^verbatim>\<open>MIN_MEAN_READ_IDENTITY\<close>, mean is not above
  max and shape is not at most 0. So the values that are not NaNs satisfy
  \<^verbatim>\<open>MIN_MEAN_READ_IDENTITY < mean_identity <= max_identity <= 100\<close> and
  \<^verbatim>\<open>identity_shape > 0\<close>, and no accepted configuration has a mean or max above 100.
\<close>

theorem check_simulate_args_identity:
  "check_simulate_args pf st a = Inr a' \<Longrightarrow>
     \<exists>mean_id max_id shape.
       mean_identity a' = Some mean_id \<and> max_identity a' = Some max_id \<and>
       identity_shape a' = Some shape \<and>
       \<not> fl_gt mean_id (Fin 100) \<and> \<not> fl_gt max_id (Fin 100) \<and>
       \<not> fl_le mean_id (Fin (MIN_MEAN_READ_IDENTITY st)) \<and>
       \<not> fl_le max_id (Fin (MIN_MEAN_READ_IDENTITY st)) \<and>
       \<not> fl_gt mean_id max_id \<and> \<not> fl_le shape (Fin 0) \<and>
       (\<not> is_nan mean_id \<longrightarrow>
          fl_lt (Fin (MIN_MEAN_READ_IDENTITY st)) mean_id \<and> fl_le mean_id (Fin 100)) \<and>
       (\<not> is_nan max_id \<longrightarrow>
          fl_lt (Fin (MIN_MEAN_READ_IDENTITY st)) max_id \<and> fl_le max_id (Fin 100)) \<and>
       (\<not> is_nan mean_id \<and> \<not> is_nan max_id \<longrightarrow> fl_le mean_id max_id) \<and>
       (\<not> is_nan shape \<longrightarrow> fl_gt shape (Fin 0))"
proof -
  assume r: "check_simulate_args pf st a = Inr a'"
  have nv: "\<And>e. \<not> violated pf st a e" using r by (rule check_Inr_none)
  have p: "a' = populate pf a" using r by (rule check_Inr_populate)
  obtain l0 l1 where l: "try_length pf a = Some (l0, l1)"
    using nv [of LengthParse] by auto
  obtain i0 i1 i2 where i: "try_identity pf a = Some (i0, i1, i2)"
    using nv [of IdentityParse] by auto
  obtain g0 g1 g2 where g: "try_glitches pf a = Some (g0, g1, g2)"
    using nv [of GlitchesParse] by auto
  have f: "mean_identity a' = Some i0" "max_identity a' = Some i1" "identity_shape a' = Some i2"
    using p l i g by (simp_all add: populate_def)
  have c1: "\<not> fl_gt i0 (Fin 100)" using nv [of MeanIdentityTooHigh] i by simp
  have c2: "\<not> fl_gt i1 (Fin 100)" using nv [of MaxIdentityTooHigh] i by simp
  have c3: "\<not> fl_le i0 (Fin (MIN_MEAN_READ_IDENTITY st))"
    using nv [of MeanIdentityTooLow] i by simp
  have c4: "\<not> fl_le i1 (Fin (MIN_MEAN_READ_IDENTITY st))"
    using nv [of MaxIdentityTooLow] i by simp
  have c5: "\<not> fl_gt i0 i1" using nv [of "MeanAboveMax i0 i1"] i by simp
  have c6: "\<not> fl_le i2 (Fin 0)" using nv [of ShapeNotPositive] i by simp
  have d1: "fl_lt (Fin (MIN_MEAN_READ_IDENTITY st)) i0" if "\<not> is_nan i0"
    using that c3 by (simp add: is_nan_def fl_lt_iff_not_le)
  have d1': "fl_le i0 (Fin 100)" if "\<not> is_nan i0"
    using that c1 by (simp add: is_nan_def fl_gt_def fl_le_iff_not_lt)
  have d2: "fl_lt (Fin (MIN_MEAN_READ_IDENTITY st)) i1" if "\<not> is_nan i1"
    using that c4 by (simp add: is_nan_def fl_lt_iff_not_le)
  have d2': "fl_le i1 (Fin 100)" if "\<not> is_nan i1"
    using that c2 by (simp add: is_nan_def fl_gt_def fl_le_iff_not_lt)
  have d3: "fl_le i0 i1" if "\<not> is_nan i0 \<and> \<not> is_nan i1"
    using that c5 by (simp add: is_nan_def fl_gt_def fl_le_iff_not_lt)
  have d4: "fl_gt i2 (Fin 0)" if "\<not> is_nan i2"
    using that c6 by (simp add: is_nan_def fl_gt_def fl_lt_iff_not_le)
  show ?thesis
    apply (rule exI [of _ i0], rule exI [of _ i1], rule exI [of _ i2])
    using f c1 c2 c3 c4 c5 c6 d1 d1' d2 d2' d3 d4 by simp
qed

theorem check_simulate_args_identity_witness:
  "check_simulate_args (host []) example_settings (simulate_defaults ''ref.fasta'' ''50x'') =
     Inr ((simulate_defaults ''ref.fasta'' ''50x'')
          \<lparr>mean_frag_length := Some (Fin 10000), frag_length_stdev := Some (Fin 9000),
            mean_identity := Some (Fin 85), max_identity := Some (Fin 95),
            identity_shape := Some (Fin 4), glitch_rate := Some (Fin 5000),
            glitch_size := Some (Fin 50), glitch_skip := Some (Fin 50)\<rparr>) \<and>
   fl_lt (Fin (MIN_MEAN_READ_IDENTITY example_settings)) (Fin 85) \<and>
   fl_le (Fin 85) (Fin 95) \<and> fl_le (Fin 95) (Fin 100) \<and> fl_gt (Fin 4) (Fin 0)"
  using check_simulate_args_identity [OF defaults_accepted [of "[]" "''ref.fasta''" "''50x''"]]
    defaults_accepted [of "[]" "''ref.fasta''" "''50x''"]
  by (simp add: fl_gt_def is_nan_def example_settings_def)

text \<open>
  Claim C3 as stated fails for a NaN: with \<^verbatim>\<open>--identity nan,95,4\<close> the function
  returns, and \<^verbatim>\<open>MIN_MEAN_READ_IDENTITY < mean_identity\<close> and
  \<^verbatim>\<open>mean_identity <= max_identity\<close> are both false.
\<close>

theorem nan_identity_accepted:
  "check_simulate_args (host []) example_settings
     ((simulate_defaults ''ref.fasta'' ''50x'')\<lparr>identity := ''nan,95,4''\<rparr>) =
     Inr ((simulate_defaults ''ref.fasta'' ''50x'')
          \<lparr>identity := ''nan,95,4'',
            mean_frag_length := Some (Fin 10000), frag_length_stdev := Some (Fin 9000),
            mean_identity := Some NaN, max_identity := Some (Fin 95),
            identity_shape := Some (Fin 4), glitch_rate := Some (Fin 5000),
            glitch_size := Some (Fin 50), glitch_skip := Some (Fin 50)\<rparr>) \<and>
   \<not> fl_lt (Fin (MIN_MEAN_READ_IDENTITY example_settings)) NaN \<and>
   \<not> fl_le NaN (Fin 95)"
  by (simp add: check_simulate_args_def Let_def eval_defs)

subsection \<open>A broken rule ends the run\<close>

lemma violated_exits:
  assumes "violated pf st a e0"
  shows "\<exists>e. check_simulate_args pf st a = Inl e \<and> (e = e0 \<or> rank e < rank e0)"
proof (cases "check_simulate_args pf st a")
  case (Inl e)
  have v: "violated pf st a e" using Inl by (rule check_Inl_violated)
  have le: "rank e \<le> rank e0" using Inl assms by (rule check_Inl_least)
  have "e = e0 \<or> rank e < rank e0"
  proof (cases "rank e = rank e0")
    case True
    then show ?thesis using v assms violated_same_rank by blast
  next
    case False
    then show ?thesis using le by simp
  qed
  then show ?thesis using Inl by simp
next
  case (Inr a')
  then show ?thesis using assms check_Inr_none by blast
qed

lemma first_violated:
  "violated pf st a e0 \<Longrightarrow> \<forall>e. rank e < rank e0 \<longrightarrow> \<not> violated pf st a e \<Longrightarrow>
   check_simulate_args pf st a = Inl e0"
  by (simp add: check_Inl_iff)

lemma try_length_None_iff:
  "try_length pf a = None \<longleftrightarrow>
     (\<forall>vs. floats pf (split CHR '','' (length_arg a)) = Some vs \<longrightarrow> length vs < 2)"
  by (auto simp: try_length_def split: option.splits list.splits)

lemma try_identity_None_iff:
  "try_identity pf a = None \<longleftrightarrow>
     (\<forall>vs. floats pf (split CHR '','' (identity a)) = Some vs \<longrightarrow> length vs < 3)"
  by (auto simp: try_identity_def split: option.splits list.splits)

lemma try_glitches_None_iff:
  "try_glitches pf a = None \<longleftrightarrow>
     (\<forall>vs. floats pf (split CHR '','' (glitches a)) = Some vs \<longrightarrow> length vs < 3)"
  by (auto simp: try_glitches_def split: option.splits list.splits)

subsection \<open>Strings that do not parse\<close>

text \<open>
  Claim C4, as amended. If the \<^verbatim>\<open>--length\<close>, \<^verbatim>\<open>--identity\<close> or \<^verbatim>\<open>--glitches\<close>
  string does not split at its commas into values that \<^verbatim>\<open>float\<close> reads, at least 2, 3
  and 3 of them, then \<^verbatim>\<open>check_simulate_args\<close> exits with an error and never returns a
  partly filled namespace. The error is the "could not parse" error of that argument,
  unless a check that stands earlier in the function has failed, whose error it is then;
  when no earlier rule is broken it is the "could not parse" error.
\<close>

theorem unparsable_values_exit:
  "((\<forall>vs. floats pf (split CHR '','' (length_arg a)) = Some vs \<longrightarrow> length vs < 2) \<longrightarrow>
      (\<exists>e. check_simulate_args pf st a = Inl e \<and> (e = LengthParse \<or> rank e < rank LengthParse)) \<and>
      ((\<forall>e. rank e < rank LengthParse \<longrightarrow> \<not> violated pf st a e) \<longrightarrow>
         check_simulate_args pf st a = Inl LengthParse)) \<and>
   ((\<forall>vs. floats pf (split CHR '','' (identity a)) = Some vs \<longrightarrow> length vs < 3) \<longrightarrow>
      (\<exists>e. check_simulate_args pf st a = Inl e \<and>
           (e = IdentityParse \<or> rank e < rank IdentityParse)) \<and>
      ((\<forall>e. rank e < rank IdentityParse \<longrightarrow> \<not> violated pf st a e) \<longrightarrow>
         check_simulate_args pf st a = Inl IdentityParse)) \<and>
   ((\<forall>vs. floats pf (split CHR '','' (glitches a)) = Some vs \<longrightarrow> length vs < 3) \<longrightarrow>
      (\<exists>e. check_simulate_args pf st a = Inl e \<and>
           (e = GlitchesParse \<or> rank e < rank GlitchesParse)) \<and>
      ((\<forall>e. rank e < rank GlitchesParse \<longrightarrow> \<not> violated pf st a e) \<longrightarrow>
         check_simulate_args pf st a = Inl GlitchesParse)) \<and>
   error_message st LengthParse = [Text ''Error: could not parse --length values''] \<and>
   error_message st IdentityParse = [Text ''Error: could not parse --identity values''] \<and>
   error_message st GlitchesParse = [Text ''Error: could not parse --glitches values'']"
proof (intro conjI impI)
  assume "\<forall>vs. floats pf (split CHR '','' (length_arg a)) = Some vs \<longrightarrow> length vs < 2"
  then have v: "violated pf st a LengthParse" by (simp add: try_length_None_iff)
  show "\<exists>e. check_simulate_args pf st a = Inl e \<and> (e = LengthParse \<or> rank e < rank LengthParse)"
    using v by (rule violated_exits)
  show "check_simulate_args pf st a = Inl LengthParse"
    if "\<forall>e. rank e < rank LengthParse \<longrightarrow> \<not> violated pf st a e"
    using v that by (rule first_violated)
next
  assume "\<forall>vs. floats pf (split CHR '','' (identity a)) = Some vs \<longrightarrow> length vs < 3"
  then have v: "violated pf st a IdentityParse" by (simp add: try_identity_None_iff)
  show "\<exists>e. check_simulate_args pf st a = Inl e \<and>
           (e = IdentityParse \<or> rank e < rank IdentityParse)"
    using v by (rule violated_exits)
  show "check_simulate_args pf st a = Inl IdentityParse"
    if "\<forall>e. rank e < rank IdentityParse \<longrightarrow> \<not> violated pf st a e"
    using v that by (rule first_violated)
next
  assume "\<forall>vs. floats pf (split CHR '','' (glitches a)) = Some vs \<longrightarrow> length vs < 3"
  then have v: "violated pf st a GlitchesParse" by (simp add: try_glitches_None_iff)
  show "\<exists>e. check_simulate_args pf st a = Inl e \<and>
           (e = GlitchesParse \<or> rank e < rank GlitchesParse)"
    using v by (rule violated_exits)
  show "check_simulate_args pf st a = Inl GlitchesParse"
    if "\<forall>e. rank e < rank GlitchesParse \<longrightarrow> \<not> violated pf st a e"
    using v that by (rule first_violated)
qed simp_all

theorem unparsable_values_exit_witness:
  "check_simulate_args (host []) example_settings
     ((simulate_defaults ''ref.fasta'' ''50x'')\<lparr>length_arg := ''abc''\<rparr>) = Inl LengthParse \<and>
   check_simulate_args (host []) example_settings
     ((simulate_defaults ''ref.fasta'' ''50x'')\<lparr>identity := ''85,95''\<rparr>) = Inl IdentityParse \<and>
   check_simulate_args (host []) example_settings
     ((simulate_defaults ''ref.fasta'' ''50x'')\<lparr>glitches := ''5000,x,50''\<rparr>) = Inl GlitchesParse"
proof (intro conjI)
  let ?H = "host []" and ?S = example_settings
  let ?a = "(simulate_defaults ''ref.fasta'' ''50x'')\<lparr>length_arg := ''abc''\<rparr>"
  have h1: "\<forall>vs. floats ?H (split CHR '','' (length_arg ?a)) = Some vs \<longrightarrow> length vs < 2"
    by (simp add: eval_defs)
  have h2: "\<forall>e. rank e < rank LengthParse \<longrightarrow> \<not> violated ?H ?S ?a e"
  proof (intro allI impI)
    fix e assume "rank e < rank LengthParse"
    then show "\<not> violated ?H ?S ?a e" by (cases e) (simp_all add: eval_defs)
  qed
  show "check_simulate_args ?H ?S ?a = Inl LengthParse"
    using unparsable_values_exit [of ?H ?a ?S] h1 h2 by blast
next
  let ?H = "host []" and ?S = example_settings
  let ?a = "(simulate_defaults ''ref.fasta'' ''50x'')\<lparr>identity := ''85,95''\<rparr>"
  have h1: "\<forall>vs. floats ?H (split CHR '','' (identity ?a)) = Some vs \<longrightarrow> length vs < 3"
    by (auto simp: eval_defs)
  have h2: "\<forall>e. rank e < rank IdentityParse \<longrightarrow> \<not> violated ?H ?S ?a e"
  proof (intro allI impI)
    fix e assume "rank e < rank IdentityParse"
    then show "\<not> violated ?H ?S ?a e" by (cases e) (simp_all add: eval_defs)
  qed
  show "check_simulate_args ?H ?S ?a = Inl IdentityParse"
    using unparsable_values_exit [of ?H ?a ?S] h1 h2 by blast
next
  let ?H = "host []" and ?S = example_settings
  let ?a = "(simulate_defaults ''ref.fasta'' ''50x'')\<lparr>glitches := ''5000,x,50''\<rparr>"
  have h1: "\<forall>vs. floats ?H (split CHR '','' (glitches ?a)) = Some vs \<longrightarrow> length vs < 3"
    by (simp add: eval_defs)
  have h2: "\<forall>e. rank e < rank GlitchesParse \<longrightarrow> \<not> violated ?H ?S ?a e"
  proof (intro allI impI)
    fix e assume "rank e < rank GlitchesParse"
    then show "\<not> violated ?H ?S ?a e" by (cases e) (simp_all add: eval_defs)
  qed
  show "check_simulate_args ?H ?S ?a = Inl GlitchesParse"
    using unparsable_values_exit [of ?H ?a ?S] h1 h2 by blast
qed

text \<open>
  Claim C4 as stated fails when an earlier check fails too: with \<^verbatim>\<open>--chimeras 60\<close> and
  \<^verbatim>\<open>--length abc\<close> the error is the one about \<^verbatim>\<open>--chimeras\<close>, not "could not parse".
\<close>

theorem chimeras_reported_before_length:
  "floats (host []) (split CHR '','' ''abc'') = None \<and>
   check_simulate_args (host []) example_settings
     ((simulate_defaults ''ref.fasta'' ''50x'')\<lparr>chimeras := Fin 60, length_arg := ''abc''\<rparr>) =
     Inl ChimerasTooHigh \<and>
   error_message example_settings ChimerasTooHigh =
     [Text ''Error: --chimeras cannot be greater than 50'']"
  by (simp add: check_simulate_args_def Let_def eval_defs)

subsection \<open>The defaults of the model subcommand\<close>

text \<open>
  Claim C6. In the namespace of the \<^verbatim>\<open>model\<close> subcommand, \<^verbatim>\<open>k_size\<close> is 7 and
  \<^verbatim>\<open>max_alt\<close> is 25 whenever the command line does not give them.
\<close>

theorem model_defaults:
  "parse_args model_subparser given = Some ns \<Longrightarrow>
     (''k_size'' \<notin> set (map fst given) \<longrightarrow> ns ''k_size'' = Some (VInt 7)) \<and>
     (''max_alt'' \<notin> set (map fst given) \<longrightarrow> ns ''max_alt'' = Some (VInt 25))"
proof -
  assume p: "parse_args model_subparser given = Some ns"
  then have ns: "ns = namespace_defaults model_subparser ++ map_of (rev given)"
    by (simp add: parse_args_def split: if_splits)
  have none: "map_of (rev given) k = None" if "k \<notin> set (map fst given)" for k
    using that by (simp add: map_of_eq_None_iff)
  have d1: "namespace_defaults model_subparser ''k_size'' = Some (VInt 7)"
    by (simp add: namespace_defaults_def model_subparser_def dest_def)
  have d2: "namespace_defaults model_subparser ''max_alt'' = Some (VInt 25)"
    by (simp add: namespace_defaults_def model_subparser_def dest_def)
  show ?thesis
    using ns none d1 d2 by (simp add: map_add_def)
qed

theorem model_defaults_witness:
  "map_option (\<lambda>ns. (ns ''k_size'', ns ''max_alt''))
     (parse_args model_subparser
        [(''reference'', VStr ''ref.fasta''), (''reads'', VStr ''reads.fastq''),
         (''alignment'', VStr ''alignments.paf'')]) =
   Some (Some (VInt 7), Some (VInt 25))"
proof -
  let ?g = "[(''reference'', VStr ''ref.fasta''), (''reads'', VStr ''reads.fastq''),
         (''alignment'', VStr ''alignments.paf'')]"
  obtain ns where p: "parse_args model_subparser ?g = Some ns"
    by (simp add: parse_args_def model_subparser_def dest_def)
  have "ns ''k_size'' = Some (VInt 7) \<and> ns ''max_alt'' = Some (VInt 25)"
    using model_defaults [OF p] by simp
  then show ?thesis using p by simp
qed

subsection \<open>No lower bound on the percentages\<close>

text \<open>
  Claim C9. The three percentages have no lower bound: with the other arguments at their
  defaults, and minima below the default mean length and mean identity,
  \<^verbatim>\<open>check_simulate_args\<close> returns for any negative \<^verbatim>\<open>--chimeras\<close>,
  \<^verbatim>\<open>--junk_reads\<close> and \<^verbatim>\<open>--random_reads\<close>, so argument sets with negative percentages
  on which it returns normally exist.
\<close>

theorem negative_percentages_accepted:
  "c < 0 \<Longrightarrow> j < 0 \<Longrightarrow> r < 0 \<Longrightarrow>
   MIN_MEAN_READ_LENGTH st < 10000 \<Longrightarrow> MIN_MEAN_READ_IDENTITY st < 85 \<Longrightarrow>
   check_simulate_args (host files) st
     ((simulate_defaults ref qty)\<lparr>chimeras := Fin c, junk_reads := Fin j, random_reads := Fin r\<rparr>) =
     Inr ((simulate_defaults ref qty)
          \<lparr>chimeras := Fin c, junk_reads := Fin j, random_reads := Fin r,
            mean_frag_length := Some (Fin 10000), frag_length_stdev := Some (Fin 9000),
            mean_identity := Some (Fin 85), max_identity := Some (Fin 95),
            identity_shape := Some (Fin 4), glitch_rate := Some (Fin 5000),
            glitch_size := Some (Fin 50), glitch_skip := Some (Fin 50)\<rparr>)"
  by (simp add: check_simulate_args_def Let_def eval_defs)

theorem negative_percentages_accepted_witness:
  "(-1 :: real) < 0 \<and> (-5 :: real) < 0 \<and> (-200 :: real) < 0 \<and>
   MIN_MEAN_READ_LENGTH example_settings < 10000 \<and>
   MIN_MEAN_READ_IDENTITY example_settings < 85 \<and>
   check_simulate_args (host []) example_settings
     ((simulate_defaults ''ref.fasta'' ''50x'')
      \<lparr>chimeras := Fin (-1), junk_reads := Fin (-5), random_reads := Fin (-200)\<rparr>) =
     Inr ((simulate_defaults ''ref.fasta'' ''50x'')
          \<lparr>chimeras := Fin (-1), junk_reads := Fin (-5), random_reads := Fin (-200),
            mean_frag_length := Some (Fin 10000), frag_length_stdev := Some (Fin 9000),
            mean_identity := Some (Fin 85), max_identity := Some (Fin 95),
            identity_shape := Some (Fin 4), glitch_rate := Some (Fin 5000),
            glitch_size := Some (Fin 50), glitch_skip := Some (Fin 50)\<rparr>)"
  using negative_percentages_accepted
    [of "-1" "-5" "-200" example_settings "[]" "''ref.fasta''" "''50x''"]
  by (simp add: example_settings_def)

subsection \<open>The glitch parameters\<close>

lemma fl_ge_zero_not_lt: "fl_ge x (Fin 0) \<Longrightarrow> \<not> fl_lt x (Fin 0)"
  by (cases x) (simp_all add: fl_ge_def)

lemma rank_glitches_cases:
  "rank e < rank GlitchesParse \<or> e = GlitchesParse \<or> e = GlitchesNegative"
  by (cases e) simp_all

text \<open>
  Claim C5, as amended. A glitch rate of exactly 0, with a size and a skip that are not
  negative, passes the validation whenever no check that stands before the reading of
  \<^verbatim>\<open>--glitches\<close> fails: \<^verbatim>\<open>check_simulate_args\<close> then returns, with \<^verbatim>\<open>glitch_rate\<close>
  0, so rate 0 is accepted and not rejected. A negative rate, size or skip makes the
  function end with an error.
\<close>

theorem zero_glitch_rate_accepted:
  "(try_glitches pf a = Some (Fin 0, g_size, g_skip) \<and>
    fl_ge g_size (Fin 0) \<and> fl_ge g_skip (Fin 0) \<and>
    (\<forall>e. rank e < rank GlitchesParse \<longrightarrow> \<not> violated pf st a e) \<longrightarrow>
      (\<exists>a'. check_simulate_args pf st a = Inr a' \<and> glitch_rate a' = Some (Fin 0) \<and>
            glitch_size a' = Some g_size \<and> glitch_skip a' = Some g_skip)) \<and>
   (try_glitches pf a = Some (r, s, k) \<and>
    (fl_lt r (Fin 0) \<or> fl_lt s (Fin 0) \<or> fl_lt k (Fin 0)) \<longrightarrow>
      (\<exists>e. check_simulate_args pf st a = Inl e))"
proof (intro conjI impI)
  assume h: "try_glitches pf a = Some (Fin 0, g_size, g_skip) \<and>
    fl_ge g_size (Fin 0) \<and> fl_ge g_skip (Fin 0) \<and>
    (\<forall>e. rank e < rank GlitchesParse \<longrightarrow> \<not> violated pf st a e)"
  have nv: "\<not> violated pf st a e" for e
  proof -
    consider "rank e < rank GlitchesParse" | "e = GlitchesParse" | "e = GlitchesNegative"
      using rank_glitches_cases by blast
    then show ?thesis
    proof cases
      case 1
      then show ?thesis using h by blast
    next
      case 2
      then show ?thesis using h by simp
    next
      case 3
      then show ?thesis using h by (simp add: fl_ge_zero_not_lt)
    qed
  qed
  then have r: "check_simulate_args pf st a = Inr (populate pf a)"
    by (simp add: check_Inr_iff)
  obtain l0 l1 where l: "try_length pf a = Some (l0, l1)"
    using nv [of LengthParse] by auto
  obtain i0 i1 i2 where i: "try_identity pf a = Some (i0, i1, i2)"
    using nv [of IdentityParse] by auto
  have "glitch_rate (populate pf a) = Some (Fin 0) \<and>
        glitch_size (populate pf a) = Some g_size \<and> glitch_skip (populate pf a) = Some g_skip"
    using l i h by (simp add: populate_def)
  then show "\<exists>a'. check_simulate_args pf st a = Inr a' \<and> glitch_rate a' = Some (Fin 0) \<and>
            glitch_size a' = Some g_size \<and> glitch_skip a' = Some g_skip"
    using r by simp
next
  assume "try_glitches pf a = Some (r, s, k) \<and>
    (fl_lt r (Fin 0) \<or> fl_lt s (Fin 0) \<or> fl_lt k (Fin 0))"
  then have "violated pf st a GlitchesNegative" by simp
  then show "\<exists>e. check_simulate_args pf st a = Inl e"
    using violated_exits by blast
qed

theorem zero_glitch_rate_accepted_witness:
  "check_simulate_args (host []) example_settings
     ((simulate_defaults ''ref.fasta'' ''50x'')\<lparr>glitches := ''0,50,50''\<rparr>) =
     Inr ((simulate_defaults ''ref.fasta'' ''50x'')
          \<lparr>glitches := ''0,50,50'',
            mean_frag_length := Some (Fin 10000), frag_length_stdev := Some (Fin 9000),
            mean_identity := Some (Fin 85), max_identity := Some (Fin 95),
            identity_shape := Some (Fin 4), glitch_rate := Some (Fin 0),
            glitch_size := Some (Fin 50), glitch_skip := Some (Fin 50)\<rparr>) \<and>
   (\<exists>e. check_simulate_args (host []) example_settings
          ((simulate_defaults ''ref.fasta'' ''50x'')\<lparr>glitches := ''-1,50,50''\<rparr>) = Inl e)"
proof (intro conjI)
  let ?H = "host []" and ?S = example_settings
  let ?a = "(simulate_defaults ''ref.fasta'' ''50x'')\<lparr>glitches := ''0,50,50''\<rparr>"
  have g: "try_glitches ?H ?a = Some (Fin 0, Fin 50, Fin 50)"
    by (simp add: eval_defs)
  have l: "try_length ?H ?a = Some (Fin 10000, Fin 9000)"
    by (simp add: eval_defs)
  have i: "try_identity ?H ?a = Some (Fin 85, Fin 95, Fin 4)"
    by (simp add: eval_defs)
  have h2: "\<forall>e. rank e < rank GlitchesParse \<longrightarrow> \<not> violated ?H ?S ?a e"
  proof (intro allI impI)
    fix e assume "rank e < rank GlitchesParse"
    then show "\<not> violated ?H ?S ?a e"
      by (cases e) (simp_all add: l i, simp_all add: eval_defs)
  qed
  have "\<exists>a'. check_simulate_args ?H ?S ?a = Inr a' \<and> glitch_rate a' = Some (Fin 0) \<and>
            glitch_size a' = Some (Fin 50) \<and> glitch_skip a' = Some (Fin 50)"
    using zero_glitch_rate_accepted [of ?H ?a "Fin 50" "Fin 50" ?S, THEN conjunct1] g h2
    by (simp add: fl_ge_def)
  then obtain a' where r: "check_simulate_args ?H ?S ?a = Inr a'" by blast
  have "a' = populate ?H ?a" using r by (rule check_Inr_populate)
  then have "a' = ?a\<lparr>mean_frag_length := Some (Fin 10000), frag_length_stdev := Some (Fin 9000),
            mean_identity := Some (Fin 85), max_identity := Some (Fin 95),
            identity_shape := Some (Fin 4), glitch_rate := Some (Fin 0),
            glitch_size := Some (Fin 50), glitch_skip := Some (Fin 50)\<rparr>"
    by (simp add: populate_def l i g)
  then show "check_simulate_args ?H ?S ?a =
     Inr ((simulate_defaults ''ref.fasta'' ''50x'')
          \<lparr>glitches := ''0,50,50'',
            mean_frag_length := Some (Fin 10000), frag_length_stdev := Some (Fin 9000),
            mean_identity := Some (Fin 85), max_identity := Some (Fin 95),
            identity_shape := Some (Fin 4), glitch_rate := Some (Fin 0),
            glitch_size := Some (Fin 50), glitch_skip := Some (Fin 50)\<rparr>)"
    using r by simp
next
  let ?H = "host []" and ?S = example_settings
  let ?b = "(simulate_defaults ''ref.fasta'' ''50x'')\<lparr>glitches := ''-1,50,50''\<rparr>"
  have g: "try_glitches ?H ?b = Some (Fin (-1), Fin 50, Fin 50)"
    by (simp add: eval_defs)
  show "\<exists>e. check_simulate_args ?H ?S ?b = Inl e"
    using zero_glitch_rate_accepted [of ?H ?b _ _ ?S "Fin (-1)" "Fin 50" "Fin 50", THEN conjunct2] g
    by simp
qed

text \<open>
  Claim C5 as stated fails when an earlier check fails: with \<^verbatim>\<open>--chimeras 60\<close> and
  \<^verbatim>\<open>--glitches 0,50,50\<close> the glitch values are 0, 50 and 50, and the function exits
  with the error about \<^verbatim>\<open>--chimeras\<close> instead of returning.
\<close>

theorem chimeras_reported_before_glitches:
  "try_glitches (host [])
     ((simulate_defaults ''ref.fasta'' ''50x'')\<lparr>chimeras := Fin 60, glitches := ''0,50,50''\<rparr>) =
     Some (Fin 0, Fin 50, Fin 50) \<and>
   fl_ge (Fin 50) (Fin 0) \<and>
   check_simulate_args (host []) example_settings
     ((simulate_defaults ''ref.fasta'' ''50x'')\<lparr>chimeras := Fin 60, glitches := ''0,50,50''\<rparr>) =
     Inl ChimerasTooHigh"
  by (simp add: check_simulate_args_def Let_def eval_defs)

subsection \<open>The minima are excluded\<close>

text \<open>
  Claim C8. A mean fragment length equal to \<^verbatim>\<open>MIN_MEAN_READ_LENGTH\<close>, and a mean or a
  max identity equal to \<^verbatim>\<open>MIN_MEAN_READ_IDENTITY\<close>, is rejected: the function exits,
  with the error of that rule when no earlier rule is broken, although the message of
  that error says "must be at least" the minimum.
\<close>

theorem minimum_itself_rejected:
  "(try_length pf a = Some (Fin (MIN_MEAN_READ_LENGTH st), stdev) \<longrightarrow>
      (\<exists>e. check_simulate_args pf st a = Inl e \<and>
           (e = MeanLengthTooLow \<or> rank e < rank MeanLengthTooLow)) \<and>
      ((\<forall>e. rank e < rank MeanLengthTooLow \<longrightarrow> \<not> violated pf st a e) \<longrightarrow>
         check_simulate_args pf st a = Inl MeanLengthTooLow)) \<and>
   (try_identity pf a = Some (Fin (MIN_MEAN_READ_IDENTITY st), max_id, shape) \<longrightarrow>
      (\<exists>e. check_simulate_args pf st a = Inl e \<and>
           (e = MeanIdentityTooLow \<or> rank e < rank MeanIdentityTooLow)) \<and>
      ((\<forall>e. rank e < rank MeanIdentityTooLow \<longrightarrow> \<not> violated pf st a e) \<longrightarrow>
         check_simulate_args pf st a = Inl MeanIdentityTooLow)) \<and>
   (try_identity pf a = Some (mean_id, Fin (MIN_MEAN_READ_IDENTITY st), shape') \<longrightarrow>
      (\<exists>e. check_simulate_args pf st a = Inl e \<and>
           (e = MaxIdentityTooLow \<or> rank e < rank MaxIdentityTooLow)) \<and>
      ((\<forall>e. rank e < rank MaxIdentityTooLow \<longrightarrow> \<not> violated pf st a e) \<longrightarrow>
         check_simulate_args pf st a = Inl MaxIdentityTooLow)) \<and>
   error_message st MeanLengthTooLow =
     [Text ''Error: mean read length must be at least '',
      Number (Fin (MIN_MEAN_READ_LENGTH st))] \<and>
   error_message st MeanIdentityTooLow =
     [Text ''Error: mean read identity must be at least '',
      Number (Fin (MIN_MEAN_READ_IDENTITY st))] \<and>
   error_message st MaxIdentityTooLow =
     [Text ''Error: max read identity must be at least '',
      Number (Fin (MIN_MEAN_READ_IDENTITY st))]"
proof (intro conjI impI)
  assume "try_length pf a = Some (Fin (MIN_MEAN_READ_LENGTH st), stdev)"
  then have v: "violated pf st a MeanLengthTooLow" by simp
  show "\<exists>e. check_simulate_args pf st a = Inl e \<and>
           (e = MeanLengthTooLow \<or> rank e < rank MeanLengthTooLow)"
    using v by (rule violated_exits)
  show "check_simulate_args pf st a = Inl MeanLengthTooLow"
    if "\<forall>e. rank e < rank MeanLengthTooLow \<longrightarrow> \<not> violated pf st a e"
    using v that by (rule first_violated)
next
  assume "try_identity pf a = Some (Fin (MIN_MEAN_READ_IDENTITY st), max_id, shape)"
  then have v: "violated pf st a MeanIdentityTooLow" by simp
  show "\<exists>e. check_simulate_args pf st a = Inl e \<and>
           (e = MeanIdentityTooLow \<or> rank e < rank MeanIdentityTooLow)"
    using v by (rule violated_exits)
  show "check_simulate_args pf st a = Inl MeanIdentityTooLow"
    if "\<forall>e. rank e < rank MeanIdentityTooLow \<longrightarrow> \<not> violated pf st a e"
    using v that by (rule first_violated)
next
  assume "try_identity pf a = Some (mean_id, Fin (MIN_MEAN_READ_IDENTITY st), shape')"
  then have v: "violated pf st a MaxIdentityTooLow" by simp
  show "\<exists>e. check_simulate_args pf st a = Inl e \<and>
           (e = MaxIdentityTooLow \<or> rank e < rank MaxIdentityTooLow)"
    using v by (rule violated_exits)
  show "check_simulate_args pf st a = Inl MaxIdentityTooLow"
    if "\<forall>e. rank e < rank MaxIdentityTooLow \<longrightarrow> \<not> violated pf st a e"
    using v that by (rule first_violated)
qed simp_all

theorem minimum_itself_rejected_witness:
  "check_simulate_args (host []) example_settings
     ((simulate_defaults ''ref.fasta'' ''50x'')\<lparr>length_arg := ''100,9000''\<rparr>) =
     Inl MeanLengthTooLow \<and>
   check_simulate_args (host []) example_settings
     ((simulate_defaults ''ref.fasta'' ''50x'')\<lparr>identity := ''50,95,4''\<rparr>) =
     Inl MeanIdentityTooLow \<and>
   check_simulate_args (host []) example_settings
     ((simulate_defaults ''ref.fasta'' ''50x'')\<lparr>identity := ''85,50,4''\<rparr>) =
     Inl MaxIdentityTooLow"
proof (intro conjI)
  let ?H = "host []" and ?S = example_settings
  let ?a = "(simulate_defaults ''ref.fasta'' ''50x'')\<lparr>length_arg := ''100,9000''\<rparr>"
  have h1: "try_length ?H ?a = Some (Fin (MIN_MEAN_READ_LENGTH ?S), Fin 9000)"
    by (simp add: eval_defs)
  have h2: "\<forall>e. rank e < rank MeanLengthTooLow \<longrightarrow> \<not> violated ?H ?S ?a e"
  proof (intro allI impI)
    fix e assume "rank e < rank MeanLengthTooLow"
    then show "\<not> violated ?H ?S ?a e" by (cases e) (simp_all add: eval_defs)
  qed
  show "check_simulate_args ?H ?S ?a = Inl MeanLengthTooLow"
    using minimum_itself_rejected [of ?H ?a ?S "Fin 9000"] h1 h2 by blast
next
  let ?H = "host []" and ?S = example_settings
  let ?a = "(simulate_defaults ''ref.fasta'' ''50x'')\<lparr>identity := ''50,95,4''\<rparr>"
  have h1: "try_identity ?H ?a = Some (Fin (MIN_MEAN_READ_IDENTITY ?S), Fin 95, Fin 4)"
    by (simp add: eval_defs)
  have h2: "\<forall>e. rank e < rank MeanIdentityTooLow \<longrightarrow> \<not> violated ?H ?S ?a e"
  proof (intro allI impI)
    fix e assume "rank e < rank MeanIdentityTooLow"
    then show "\<not> violated ?H ?S ?a e" by (cases e) (simp_all add: eval_defs)
  qed
  show "check_simulate_args ?H ?S ?a = Inl MeanIdentityTooLow"
    using minimum_itself_rejected [of ?H ?a ?S _ "Fin 95" "Fin 4"] h1 h2 by blast
next
  let ?H = "host []" and ?S = example_settings
  let ?a = "(simulate_defaults ''ref.fasta'' ''50x'')\<lparr>identity := ''85,50,4''\<rparr>"
  have h1: "try_identity ?H ?a = Some (Fin 85, Fin (MIN_MEAN_READ_IDENTITY ?S), Fin 4)"
    by (simp add: eval_defs)
  have h2: "\<forall>e. rank e < rank MaxIdentityTooLow \<longrightarrow> \<not> violated ?H ?S ?a e"
  proof (intro allI impI)
    fix e assume "rank e < rank MaxIdentityTooLow"
    then show "\<not> violated ?H ?S ?a e" by (cases e) (simp_all add: eval_defs)
  qed
  show "check_simulate_args ?H ?S ?a = Inl MaxIdentityTooLow"
    using minimum_itself_rejected [of ?H ?a ?S _ _ _ "Fin 85" "Fin 4"] h1 h2 by blast
qed

subsection \<open>The first failure ends the run\<close>





subsection \<open>What the function changes\<close>

text \<open>
  Claim C10. When \<^verbatim>\<open>check_simulate_args\<close> returns, the namespace is the one it was
  given with the eight attributes \<^verbatim>\<open>mean_frag_length\<close>, \<^verbatim>\<open>frag_length_stdev\<close>,
  \<^verbatim>\<open>mean_identity\<close>, \<^verbatim>\<open>max_identity\<close>, \<^verbatim>\<open>identity_shape\<close>, \<^verbatim>\<open>glitch_rate\<close>,
  \<^verbatim>\<open>glitch_size\<close> and \<^verbatim>\<open>glitch_skip\<close> set to the values read from the
  \<^verbatim>\<open>--length\<close>, \<^verbatim>\<open>--identity\<close> and \<^verbatim>\<open>--glitches\<close> strings; each of the fifteen
  attributes that the parser has set keeps its value.
\<close>

theorem check_simulate_args_frame:
  "check_simulate_args pf st a = Inr a' \<Longrightarrow>
     (\<exists>l0 l1 ls i0 i1 i2 is g0 g1 g2 gs.
        floats pf (split CHR '','' (length_arg a)) = Some (l0 # l1 # ls) \<and>
        floats pf (split CHR '','' (identity a)) = Some (i0 # i1 # i2 # is) \<and>
        floats pf (split CHR '','' (glitches a)) = Some (g0 # g1 # g2 # gs) \<and>
        a' = a\<lparr>mean_frag_length := Some l0, frag_length_stdev := Some l1,
                mean_identity := Some i0, max_identity := Some i1, identity_shape := Some i2,
                glitch_rate := Some g0, glitch_size := Some g1, glitch_skip := Some g2\<rparr>) \<and>
     subparser_name a' = subparser_name a \<and> reference a' = reference a \<and>
     quantity a' = quantity a \<and> length_arg a' = length_arg a \<and>
     identity a' = identity a \<and> error_model a' = error_model a \<and>
     start_adapter a' = start_adapter a \<and> end_adapter a' = end_adapter a \<and>
     start_adapter_seq a' = start_adapter_seq a \<and> end_adapter_seq a' = end_adapter_seq a \<and>
     junk_reads a' = junk_reads a \<and> random_reads a' = random_reads a \<and>
     chimeras a' = chimeras a \<and> glitches a' = glitches a \<and>
     small_plasmid_bias a' = small_plasmid_bias a"
proof -
  assume r: "check_simulate_args pf st a = Inr a'"
  have nv: "\<And>e. \<not> violated pf st a e" using r by (rule check_Inr_none)
  have p: "a' = populate pf a" using r by (rule check_Inr_populate)
  obtain l0 l1 where l: "try_length pf a = Some (l0, l1)"
    using nv [of LengthParse] by auto
  obtain i0 i1 i2 where i: "try_identity pf a = Some (i0, i1, i2)"
    using nv [of IdentityParse] by auto
  obtain g0 g1 g2 where g: "try_glitches pf a = Some (g0, g1, g2)"
    using nv [of GlitchesParse] by auto
  obtain ls where fl: "floats pf (split CHR '','' (length_arg a)) = Some (l0 # l1 # ls)"
    using l by (auto simp: try_length_def split: option.splits list.splits)
  obtain "is" where fi: "floats pf (split CHR '','' (identity a)) = Some (i0 # i1 # i2 # is)"
    using i by (auto simp: try_identity_def split: option.splits list.splits)
  obtain gs where fg: "floats pf (split CHR '','' (glitches a)) = Some (g0 # g1 # g2 # gs)"
    using g by (auto simp: try_glitches_def split: option.splits list.splits)
  have e: "a' = a\<lparr>mean_frag_length := Some l0, frag_length_stdev := Some l1,
                mean_identity := Some i0, max_identity := Some i1, identity_shape := Some i2,
                glitch_rate := Some g0, glitch_size := Some g1, glitch_skip := Some g2\<rparr>"
    using p l i g by (simp add: populate_def)
  have fields: "subparser_name a' = subparser_name a \<and> reference a' = reference a \<and>
     quantity a' = quantity a \<and> length_arg a' = length_arg a \<and>
     identity a' = identity a \<and> error_model a' = error_model a \<and>
     start_adapter a' = start_adapter a \<and> end_adapter a' = end_adapter a \<and>
     start_adapter_seq a' = start_adapter_seq a \<and> end_adapter_seq a' = end_adapter_seq a \<and>
     junk_reads a' = junk_reads a \<and> random_reads a' = random_reads a \<and>
     chimeras a' = chimeras a \<and> glitches a' = glitches a \<and>
     small_plasmid_bias a' = small_plasmid_bias a"
    by (simp add: e)
  show ?thesis
    using fl fi fg e fields by blast
qed

theorem check_simulate_args_frame_witness:
  "check_simulate_args (host []) example_settings (simulate_defaults ''ref.fasta'' ''50x'') =
     Inr ((simulate_defaults ''ref.fasta'' ''50x'')
          \<lparr>mean_frag_length := Some (Fin 10000), frag_length_stdev := Some (Fin 9000),
            mean_identity := Some (Fin 85), max_identity := Some (Fin 95),
            identity_shape := Some (Fin 4), glitch_rate := Some (Fin 5000),
            glitch_size := Some (Fin 50), glitch_skip := Some (Fin 50)\<rparr>) \<and>
   chimeras (simulate_defaults ''ref.fasta'' ''50x''
          \<lparr>mean_frag_length := Some (Fin 10000), frag_length_stdev := Some (Fin 9000),
            mean_identity := Some (Fin 85), max_identity := Some (Fin 95),
            identity_shape := Some (Fin 4), glitch_rate := Some (Fin 5000),
            glitch_size := Some (Fin 50), glitch_skip := Some (Fin 50)\<rparr>) =
     chimeras (simulate_defaults ''ref.fasta'' ''50x'')"
  using check_simulate_args_frame [OF defaults_accepted [of "[]" "''ref.fasta''" "''50x''"]]
    defaults_accepted [of "[]" "''ref.fasta''" "''50x''"]
  by simp

end
